theory Spec2Isabelle
  imports Complex_Main "HOL-Library.Multiset" "HOL-Library.AList"
begin

section \<open>Common Python notions\<close>

text \<open>
  Exceptions raised by the modelled Python code are values of \<open>error\<close>; a function that
  may raise returns \<open>error + 'a\<close>, with \<open>Inl\<close> for the exception.
\<close>

datatype error = TypeError | IndexError | KeyError | ZeroDivisionError

text \<open>
  Python strings are modelled as \<open>string\<close>, the list of the characters. The methods
  \<^verbatim>\<open>str.lower\<close> and \<^verbatim>\<open>str.capitalize\<close> follow the Unicode case tables of the
  interpreter, which are not part of this repository: the two methods are parameters of
  the model, and every property below holds whatever they return.
\<close>

record py_str =
  str_lower :: "string \<Rightarrow> string"
  str_capitalize :: "string \<Rightarrow> string"


section \<open>language\_utils.py\<close>

subsection \<open>Character-based pre- and postprocessing\<close>

text \<open>
  \<^verbatim>\<open>list(sequence)\<close> on a string gives the list of its one-character strings;
  \<^verbatim>\<open>"".join(sqc)\<close> concatenates a list of strings.
\<close>

definition preprocess_char_based :: "string \<Rightarrow> string list" where
  "preprocess_char_based sequence = map (\<lambda>c. [c]) sequence"

definition postprocess_char_based :: "string list list \<Rightarrow> 'a \<Rightarrow> string list list" where
  "postprocess_char_based sequences _ = map (\<lambda>sqc. [concat sqc]) sequences"

subsection \<open>German contractions\<close>

definition CONTRACTIONS :: "string list" where
  "CONTRACTIONS = [''am'', ''ans'', ''beim'', ''im'', ''ins'', ''vom'', ''zum'', ''zur'']"

definition UNCONTRACTED_FORMS :: "string list list" where
  "UNCONTRACTED_FORMS =
     [[''an'', ''dem''], [''an'', ''das''], [''bei'', ''dem''], [''in'', ''dem''],
      [''in'', ''das''], [''von'', ''dem''], [''zu'', ''dem''], [''zu'', ''der'']]"

text \<open>
  The module-level loop that fills \<open>CONTRACT\<close>: for every contraction with its
  uncontracted form \<open>[prep, article]\<close>, the inner dictionary of \<open>article\<close> is created if
  it is missing and then maps \<open>prep\<close> to the contraction.
\<close>

fun contract_add ::
  "(string \<rightharpoonup> (string \<rightharpoonup> string)) \<Rightarrow> string \<times> string list \<Rightarrow> (string \<rightharpoonup> (string \<rightharpoonup> string))"
where
  "contract_add C (cont, [prep, article]) =
     (let inner = (case C article of None \<Rightarrow> Map.empty | Some m \<Rightarrow> m)
      in C(article \<mapsto> inner(prep \<mapsto> cont)))"
| "contract_add C (cont, _) = C"

definition CONTRACT :: "string \<rightharpoonup> (string \<rightharpoonup> string)" where
  "CONTRACT = foldl contract_add Map.empty (zip CONTRACTIONS UNCONTRACTED_FORMS)"

subsection \<open>GermanPostprocessor\<close>

record GermanPostprocessor =
  compounding :: bool
  contracting :: bool
  pronouns :: bool

text \<open>
  One iteration of the loop of \<open>__call__\<close> over the words of the sentence. The loop state
  is the list \<open>result\<close> and the flag \<open>compound\<close>. \<open>result[-1]\<close> on an empty list raises
  \<open>IndexError\<close>; the branches that guard it with \<open>result\<close> are written with that guard.
\<close>

definition set_last :: "string list \<Rightarrow> string \<Rightarrow> error + string list" where
  "set_last result w = (if result = [] then Inl IndexError else Inr (butlast result @ [w]))"

definition post_step ::
  "py_str \<Rightarrow> GermanPostprocessor \<Rightarrow> string list \<times> bool \<Rightarrow> string
     \<Rightarrow> error + string list \<times> bool"
where
  "post_step u self st word =
     (case st of (result, compound) \<Rightarrow>
        if contracting self \<and> CONTRACT word \<noteq> None \<and> result \<noteq> []
           \<and> (case CONTRACT word of None \<Rightarrow> False | Some m \<Rightarrow> m (last result) \<noteq> None)
        then (case CONTRACT word of
                None \<Rightarrow> Inl KeyError
              | Some m \<Rightarrow> (case m (last result) of
                            None \<Rightarrow> Inl KeyError
                          | Some cont \<Rightarrow> map_sum id (\<lambda>r. (r, compound)) (set_last result cont)))
        else if pronouns self \<and> take 2 word = ''<<''
        then (if result \<noteq> []
              then map_sum id (\<lambda>r. (r, compound)) (set_last result (last result @ drop 2 word))
              else Inr (result, compound))
        else if compounding self \<and> result \<noteq> [] \<and> word = ''>><<''
        then Inr (result, True)
        else if compounding self \<and> compound
        then map_sum id (\<lambda>r. (r, False)) (set_last result (last result @ str_lower u word))
        else Inr (result @ [word], compound))"

fun post_loop ::
  "py_str \<Rightarrow> GermanPostprocessor \<Rightarrow> string list \<times> bool \<Rightarrow> string list
     \<Rightarrow> error + string list \<times> bool"
where
  "post_loop u self st [] = Inr st"
| "post_loop u self st (word # sentence) =
     (case post_step u self st word of
        Inl e \<Rightarrow> Inl e
      | Inr st' \<Rightarrow> post_loop u self st' sentence)"

definition GermanPostprocessor_call ::
  "py_str \<Rightarrow> GermanPostprocessor \<Rightarrow> string list \<Rightarrow> error + string list"
where
  "GermanPostprocessor_call u self sentence =
     (case post_loop u self ([], False) sentence of
        Inl e \<Rightarrow> Inl e
      | Inr (result, compound) \<Rightarrow>
          Inr (case result of [] \<Rightarrow> [] | w # ws \<Rightarrow> str_capitalize u w # ws))"


section \<open>generic\_trainer.py\<close>

subsection \<open>Tensors, Python numbers and variables\<close>

text \<open>
  Python floats are modelled as reals. A graph tensor is represented by the value it
  evaluates to under the current values of the variables: a flat list of reals for a
  tensor with elements, a real for a scalar. \<open>scalar\<close> separates a plain Python number
  (\<open>Num\<close>) from a scalar graph tensor (\<open>Tensor\<close>), because the code mixes the two:
  \<^verbatim>\<open>sum(...)\<close> starts from the number \<open>0\<close>, and \<^verbatim>\<open>l != 0.\<close> compares
  numbers by value but is true for every tensor object.
\<close>

datatype scalar = Num real | Tensor real

fun scalar_val :: "scalar \<Rightarrow> real" where
  "scalar_val (Num x) = x"
| "scalar_val (Tensor x) = x"

fun scalar_add :: "scalar \<Rightarrow> scalar \<Rightarrow> scalar" where
  "scalar_add (Num a) (Num b) = Num (a + b)"
| "scalar_add a b = Tensor (scalar_val a + scalar_val b)"

fun scalar_mul :: "scalar \<Rightarrow> scalar \<Rightarrow> scalar" where
  "scalar_mul (Num a) (Num b) = Num (a * b)"
| "scalar_mul a b = Tensor (scalar_val a * scalar_val b)"

fun scalar_abs :: "scalar \<Rightarrow> scalar" where
  "scalar_abs (Num a) = Num \<bar>a\<bar>"
| "scalar_abs (Tensor a) = Tensor \<bar>a\<bar>"

text \<open>The comparison \<^verbatim>\<open>l != 0.\<close>.\<close>

fun ne_zero :: "scalar \<Rightarrow> bool" where
  "ne_zero (Num a) = (a \<noteq> 0)"
| "ne_zero (Tensor a) = True"

text \<open>The built-in \<^verbatim>\<open>sum\<close>: a left fold that starts from the number \<open>0\<close>.\<close>

definition py_sum :: "scalar list \<Rightarrow> scalar" where
  "py_sum xs = foldl scalar_add (Num 0) xs"

text \<open>A trainable variable: its name and its elements.\<close>

record Variable =
  name :: string
  elems :: "real list"

definition tf_pow :: "real list \<Rightarrow> nat \<Rightarrow> real list" where
  "tf_pow v n = map (\<lambda>x. x ^ n) v"

definition tf_reduce_sum :: "real list \<Rightarrow> scalar" where
  "tf_reduce_sum v = Tensor (sum_list v)"

subsection \<open>Regularization\<close>

text \<open>
  \<^verbatim>\<open>BIAS_REGEX = re.compile(r'[Bb]ias')\<close>; \<open>findall\<close> scans the string from left to
  right and returns the non-overlapping matches.
\<close>

fun BIAS_REGEX_findall :: "string \<Rightarrow> string list" where
  "BIAS_REGEX_findall [] = []"
| "BIAS_REGEX_findall (c # cs) =
     (if (c = CHR ''B'' \<or> c = CHR ''b'') \<and> take 3 cs = ''ias''
      then (c # ''ias'') # BIAS_REGEX_findall (drop 3 cs)
      else BIAS_REGEX_findall cs)"

text \<open>
  The list comprehension of \<open>__init__\<close>: one term \<^verbatim>\<open>tf.reduce_sum(v ** 2)\<close> for every
  trainable variable \<open>v\<close> for which \<^verbatim>\<open>BIAS_REGEX.findall(v.name)\<close> is a non-empty list.
\<close>

definition regularizable :: "Variable list \<Rightarrow> scalar list" where
  "regularizable trainable_variables =
     map (\<lambda>v. tf_reduce_sum (tf_pow (elems v) 2))
       (filter (\<lambda>v. BIAS_REGEX_findall (Variable.name v) \<noteq> []) trainable_variables)"

definition l1_value :: "Variable list \<Rightarrow> scalar" where
  "l1_value trainable_variables = py_sum (map scalar_abs (regularizable trainable_variables))"

definition l1_cost :: "real \<Rightarrow> Variable list \<Rightarrow> scalar" where
  "l1_cost l1_weight trainable_variables =
     (if l1_weight > 0 then scalar_mul (Num l1_weight) (l1_value trainable_variables)
      else Num 0)"

definition l2_value :: "Variable list \<Rightarrow> scalar" where
  "l2_value trainable_variables =
     py_sum (map (\<lambda>v. scalar_mul v v) (regularizable trainable_variables))"

definition l2_cost :: "real \<Rightarrow> Variable list \<Rightarrow> scalar" where
  "l2_cost l2_weight trainable_variables =
     (if l2_weight > 0 then scalar_mul (Num l2_weight) (l2_value trainable_variables)
      else Num 0)"

subsection \<open>Gradient aggregation\<close>

text \<open>
  A gradient list pairs a gradient, or \<open>None\<close>, with a variable. The type of gradient
  tensors is any type with an addition; nothing is assumed of the addition here.
\<close>

type_synonym ('g, 'v) Gradients = "('g option \<times> 'v) list"

text \<open>
  \<open>summed_dict\<close> is kept as an association list in insertion order, which is also the
  order in which \<open>items()\<close> is taken to list it; no property below depends on that
  order. Variables are dictionary keys by identity, here by equality of the values that
  stand for them. The body of the inner loop of \<open>_sum_gradients\<close>: a \<open>None\<close> gradient is
  skipped, a variable not yet in the dictionary is entered with its gradient, and
  otherwise the gradient is added to the stored sum.
\<close>

definition sum_entry :: "('v \<times> 'g::plus) list \<Rightarrow> 'g option \<times> 'v \<Rightarrow> ('v \<times> 'g) list" where
  "sum_entry summed_dict entry =
     (case entry of
        (None, var) \<Rightarrow> summed_dict
      | (Some tensor, var) \<Rightarrow>
          (case map_of summed_dict var of
             None \<Rightarrow> AList.update var tensor summed_dict
           | Some s \<Rightarrow> AList.update var (s + tensor) summed_dict))"

definition sum_gradients :: "('g::plus, 'v) Gradients list \<Rightarrow> ('g \<times> 'v) list" where
  "sum_gradients gradients_list =
     map (\<lambda>(var, tensor). (tensor, var)) (foldl (foldl sum_entry) [] gradients_list)"

text \<open>
  The words of the specification, for comparison with \<open>sum_gradients\<close>: the non-null
  contributions to a variable across all input lists, in input order, and their sum from
  left to right (\<open>None\<close> when there is no contribution).
\<close>

definition contributions :: "'v \<Rightarrow> ('g, 'v) Gradients list \<Rightarrow> 'g list" where
  "contributions v gradients_list =
     List.map_filter (\<lambda>(g, var). if var = v then g else None) (concat gradients_list)"

fun total :: "'g::plus list \<Rightarrow> 'g option" where
  "total [] = None"
| "total (c # cs) = Some (foldl (+) c cs)"

subsection \<open>Floating-point gradients\<close>

text \<open>
  The addition of IEEE 754 binary64 numbers, the floats of Python and of a
  \<open>tf.float64\<close> tensor, for a gradient that is a scalar tensor. \<open>Float64 m e\<close> stands for
  the number \<open>m * 2 ^ e\<close>; a non-zero result is normalized to a mantissa of 53 bits.
  The exact sum is rounded to the nearest representable number, a tie going to the even
  mantissa. Overflow, subnormal numbers, infinities and NaN are left out.
\<close>

datatype float64 = Float64 int int

function bit_length :: "int \<Rightarrow> nat" where
  "bit_length n = (if n \<le> 0 then 0 else Suc (bit_length (n div 2)))"
  by pat_completeness auto
termination
  by (relation "measure nat") auto

declare bit_length.simps [simp del]

definition round_float64 :: "int \<Rightarrow> int \<Rightarrow> float64" where
  "round_float64 m e =
     (let n = bit_length \<bar>m\<bar> in
      if m = 0 then Float64 0 0
      else if n \<le> 53 then Float64 (m * 2 ^ (53 - n)) (e - int (53 - n))
      else (let k = n - 53;
                q = \<bar>m\<bar> div 2 ^ k;
                r = \<bar>m\<bar> mod 2 ^ k;
                half = 2 ^ (k - 1);
                q' = (if r > half \<or> (r = half \<and> odd q) then q + 1 else q)
            in if q' = 2 ^ 53 then Float64 (sgn m * 2 ^ 52) (e + int k + 1)
               else Float64 (sgn m * q') (e + int k)))"

fun float64_add :: "float64 \<Rightarrow> float64 \<Rightarrow> float64" where
  "float64_add (Float64 m1 e1) (Float64 m2 e2) =
     (let e = min e1 e2
      in round_float64 (m1 * 2 ^ nat (e1 - e) + m2 * 2 ^ nat (e2 - e)) e)"

instantiation float64 :: plus
begin

definition plus_float64 :: "float64 \<Rightarrow> float64 \<Rightarrow> float64" where
  "plus_float64 = float64_add"

instance ..

end

subsection \<open>GenericTrainer\<close>

record ('g, 'd) Objective =
  name :: string
  decoder :: 'd
  loss :: scalar
  gradients :: "('g, Variable) Gradients option"

record ('g, 'op) Optimizer =
  compute_gradients :: "scalar \<Rightarrow> ('g, Variable) Gradients"
  apply_gradients :: "('g \<times> Variable) list \<Rightarrow> 'op"

text \<open>
  The value given for \<open>clip_norm\<close>: \<open>None\<close>, a boolean or a number. The default of the
  parameter in the signature of \<open>__init__\<close> is \<open>False\<close>.
\<close>

datatype py_clip = PyNone | PyBool bool | PyFloat real

definition default_clip_norm :: py_clip where
  "default_clip_norm = PyBool False"

text \<open>
  Summaries registered in the collections of the graph, and the collections themselves:
  for every collection name the list of the summaries added to it.
\<close>

datatype 'g summary = ScalarSummary string scalar | HistogramSummary string 'g

type_synonym 'g collections = "string \<Rightarrow> 'g summary list"

definition add_summary :: "string \<Rightarrow> 'g summary \<Rightarrow> 'g collections \<Rightarrow> 'g collections" where
  "add_summary collection s colls = colls(collection := colls collection @ [s])"

text \<open>
  What \<open>__init__\<close> takes from outside this file: the trainable variables and the
  collections of the graph, the default optimizer, \<^verbatim>\<open>tf.clip_by_norm\<close> and
  \<open>collect_encoders\<close>. They are parameters of the model and are taken to return.
\<close>

record ('g, 'd, 'c, 'op) tf_env =
  trainable_variables :: "Variable list"
  graph_collections :: "'g collections"
  AdamOptimizer :: "real \<Rightarrow> ('g, 'op) Optimizer"
  clip_by_norm :: "'g \<Rightarrow> py_clip \<Rightarrow> 'g"
  collect_encoders :: "'d \<Rightarrow> 'c set"

record ('g, 'c, 'op) GenericTrainer =
  optimizer :: "('g, 'op) Optimizer"
  losses :: "scalar list"
  all_coders :: "'c set"
  train_op :: 'op
  histogram_summaries :: "'g summary list"
  scalar_summaries :: "'g summary list"
  image_summaries :: "'g summary list"

definition get_gradients :: "('g, 'op) Optimizer \<Rightarrow> scalar \<Rightarrow> ('g, Variable) Gradients" where
  "get_gradients opt tensor = compute_gradients opt tensor"

text \<open>
  \<^verbatim>\<open>set.union(*sets)\<close>: the union of the first set with the others; with no
  argument at all the call raises \<open>TypeError\<close>.
\<close>

fun set_union :: "'c set list \<Rightarrow> error + 'c set" where
  "set_union [] = Inl TypeError"
| "set_union (s # ss) = Inr (foldl (\<union>) s ss)"

text \<open>The clipping step of \<open>__init__\<close>, guarded by \<^verbatim>\<open>clip_norm is not None\<close>.\<close>

definition clip_gradients ::
  "('g \<Rightarrow> py_clip \<Rightarrow> 'g) \<Rightarrow> py_clip \<Rightarrow> ('g \<times> 'v) list \<Rightarrow> ('g \<times> 'v) list"
where
  "clip_gradients clip_by_norm_fn clip_norm grads =
     (if clip_norm \<noteq> PyNone
      then map (\<lambda>(grad, var). (clip_by_norm_fn grad clip_norm, var)) grads
      else grads)"

text \<open>
  The gradient lists that are summed: one per objective (its own gradients when it has
  them, those of its loss otherwise), then those of \<open>l1_cost\<close> and \<open>l2_cost\<close> where the
  cost passes \<^verbatim>\<open>l != 0.\<close>.
\<close>

definition partial_gradients ::
  "('g, 'op) Optimizer \<Rightarrow> ('g, 'd) Objective list \<Rightarrow> scalar list \<Rightarrow> ('g, Variable) Gradients list"
where
  "partial_gradients opt objectives costs =
     map (\<lambda>objective. case gradients objective of
                         None \<Rightarrow> get_gradients opt (loss objective)
                       | Some gs \<Rightarrow> gs) objectives
     @ map (get_gradients opt) (filter ne_zero costs)"

definition GenericTrainer_init ::
  "('g::plus, 'd, 'c, 'op) tf_env \<Rightarrow> ('g, 'd) Objective list \<Rightarrow> real \<Rightarrow> real \<Rightarrow> py_clip
     \<Rightarrow> ('g, 'op) Optimizer option
     \<Rightarrow> error + ('g, 'c, 'op) GenericTrainer \<times> 'g collections"
where
  "GenericTrainer_init env objectives l1_weight l2_weight clip_norm optimizer_arg =
     (let opt = (case optimizer_arg of
                   None \<Rightarrow> AdamOptimizer env (1 / 10000)
                 | Some given \<Rightarrow> given);
          l1 = l1_value (trainable_variables env);
          l1c = l1_cost l1_weight (trainable_variables env);
          l2 = l2_value (trainable_variables env);
          l2c = l2_cost l2_weight (trainable_variables env);
          colls1 = add_summary ''summary_train'' (ScalarSummary ''train_l2'' l2)
                     (add_summary ''summary_train'' (ScalarSummary ''train_l1'' l1)
                        (graph_collections env));
          grads = clip_gradients (clip_by_norm env) clip_norm
                    (sum_gradients (partial_gradients opt objectives [l1c, l2c]))
      in case set_union (map (\<lambda>obj. collect_encoders env (decoder obj)) objectives) of
           Inl e \<Rightarrow> Inl e
         | Inr coders \<Rightarrow>
             (let colls2 = foldl (\<lambda>colls (grad, var).
                               add_summary ''summary_gradients''
                                 (HistogramSummary (''gr_'' @ Variable.name var) grad) colls)
                             colls1 grads
              in Inr (\<lparr>optimizer = opt,
                        losses = map loss objectives @ [l1, l2],
                        all_coders = coders,
                        train_op = apply_gradients opt grads,
                        histogram_summaries = colls2 ''summary_gradients'',
                        scalar_summaries = colls2 ''summary_train'',
                        image_summaries = colls2 ''summary_val_plots''\<rparr>,
                      colls2)))"

subsection \<open>TrainExecutable\<close>

text \<open>
  What one execution context returns for one fetched key: the list of loss values, a
  serialized summary, or nothing (for the update operation). A context result is a
  dictionary from the fetched keys to such values.
\<close>

datatype fetched = Floats "real list" | Blob string | NoValue

type_synonym session_result = "string \<rightharpoonup> fetched"

text \<open>
  \<open>ExecutionResult\<close> is declared in \<open>neuralmonkey.runners.base_runner\<close>; its fields are
  those of the call in \<open>collect_results\<close>, the first positional one being the outputs.
\<close>

record ExecutionResult =
  outputs :: "fetched list"
  losses :: "real list"
  scalar_summaries :: "fetched option"
  histogram_summaries :: "fetched option"
  image_summaries :: "fetched option"

record ('g, 'c, 'op) TrainExecutable =
  all_coders :: "'c set"
  train_op :: 'op
  losses :: "scalar list"
  scalar_summaries :: "'g summary list option"
  histogram_summaries :: "'g summary list option"
  image_summaries :: "'g summary list option"
  result :: "ExecutionResult option"

definition get_executable ::
  "('g, 'c, 'op) GenericTrainer \<Rightarrow> bool \<Rightarrow> bool \<Rightarrow> ('g, 'c, 'op) TrainExecutable"
where
  "get_executable self train summaries =
     \<lparr>all_coders = GenericTrainer.all_coders self,
      train_op = GenericTrainer.train_op self,
      losses = GenericTrainer.losses self,
      scalar_summaries =
        (if summaries then Some (GenericTrainer.scalar_summaries self) else None),
      histogram_summaries =
        (if summaries then Some (GenericTrainer.histogram_summaries self) else None),
      image_summaries =
        (if summaries then Some (GenericTrainer.image_summaries self) else None),
      result = None\<rparr>"

text \<open>The fetch plan of \<open>next_to_execute\<close>, with the empty feed dictionary.\<close>

datatype ('g, 'op) fetch =
  FetchOp 'op | FetchSummaries "'g summary list option" | FetchLosses "scalar list"

definition next_to_execute ::
  "('g, 'c, 'op) TrainExecutable
     \<Rightarrow> 'c set \<times> (string \<rightharpoonup> ('g, 'op) fetch) \<times> (string \<rightharpoonup> fetched)"
where
  "next_to_execute self =
     (let fetches = [''train_op'' \<mapsto> FetchOp (TrainExecutable.train_op self)];
          fetches =
            (if TrainExecutable.scalar_summaries self \<noteq> None
             then fetches(''scalar_summaries'' \<mapsto>
                            FetchSummaries (TrainExecutable.scalar_summaries self),
                          ''histogram_summaries'' \<mapsto>
                            FetchSummaries (TrainExecutable.histogram_summaries self),
                          ''image_summaries'' \<mapsto>
                            FetchSummaries (TrainExecutable.image_summaries self))
             else fetches);
          fetches = fetches(''losses'' \<mapsto> FetchLosses (TrainExecutable.losses self))
      in (TrainExecutable.all_coders self, fetches, Map.empty))"

text \<open>Dictionary and list subscripts, raising \<open>KeyError\<close> and \<open>IndexError\<close>.\<close>

definition getitem :: "('k \<rightharpoonup> 'a) \<Rightarrow> 'k \<Rightarrow> error + 'a" where
  "getitem d k = (case d k of None \<Rightarrow> Inl KeyError | Some x \<Rightarrow> Inr x)"

fun loss_at :: "fetched \<Rightarrow> nat \<Rightarrow> error + real" where
  "loss_at (Floats ls) i = (if i < length ls then Inr (ls ! i) else Inl IndexError)"
| "loss_at _ i = Inl TypeError"

text \<open>Division of a float by the length of a list.\<close>

definition truediv :: "real \<Rightarrow> nat \<Rightarrow> error + real" where
  "truediv s n = (if n = 0 then Inl ZeroDivisionError else Inr (s / real n))"

text \<open>A loop whose body may raise: the first exception ends it.\<close>

fun for_loop :: "('a \<Rightarrow> 'b \<Rightarrow> error + 'a) \<Rightarrow> 'a \<Rightarrow> 'b list \<Rightarrow> error + 'a" where
  "for_loop body acc [] = Inr acc"
| "for_loop body acc (x # xs) =
     (case body acc x of Inl e \<Rightarrow> Inl e | Inr acc' \<Rightarrow> for_loop body acc' xs)"

text \<open>A list comprehension whose element expression may raise.\<close>

fun comprehension :: "('a \<Rightarrow> error + 'b) \<Rightarrow> 'a list \<Rightarrow> error + 'b list" where
  "comprehension f [] = Inr []"
| "comprehension f (x # xs) =
     (case f x of
        Inl e \<Rightarrow> Inl e
      | Inr y \<Rightarrow> (case comprehension f xs of Inl e \<Rightarrow> Inl e | Inr ys \<Rightarrow> Inr (y # ys)))"

text \<open>
  The three summaries of \<open>collect_results\<close>: \<open>None\<close> when the executable has no scalar
  summaries, the entries of \<open>results[0]\<close> otherwise.
\<close>

definition first_summaries ::
  "('g, 'c, 'op) TrainExecutable \<Rightarrow> session_result list
     \<Rightarrow> error + fetched option \<times> fetched option \<times> fetched option"
where
  "first_summaries self results =
     (if TrainExecutable.scalar_summaries self = None then Inr (None, None, None)
      else (case results of
              [] \<Rightarrow> Inl IndexError
            | r0 # _ \<Rightarrow>
                (case getitem r0 ''scalar_summaries'' of
                   Inl e \<Rightarrow> Inl e
                 | Inr s \<Rightarrow>
                     (case getitem r0 ''histogram_summaries'' of
                        Inl e \<Rightarrow> Inl e
                      | Inr h \<Rightarrow>
                          (case getitem r0 ''image_summaries'' of
                             Inl e \<Rightarrow> Inl e
                           | Inr i \<Rightarrow> Inr (Some s, Some h, Some i))))))"

text \<open>
  The statement \<^verbatim>\<open>losses_sum[i] += session_result['losses'][i]\<close>: the old value of
  \<open>losses_sum[i]\<close> is read first, then the right-hand side is evaluated.
\<close>

definition add_loss :: "session_result \<Rightarrow> real list \<Rightarrow> nat \<Rightarrow> error + real list" where
  "add_loss session_result losses_sum i =
     (if i < length losses_sum
      then (case getitem session_result ''losses'' of
              Inl e \<Rightarrow> Inl e
            | Inr ls \<Rightarrow>
                (case loss_at ls i of
                   Inl e \<Rightarrow> Inl e
                 | Inr x \<Rightarrow> Inr (losses_sum[i := losses_sum ! i + x])))
      else Inl IndexError)"

definition sum_losses ::
  "('g, 'c, 'op) TrainExecutable \<Rightarrow> session_result list \<Rightarrow> error + real list"
where
  "sum_losses self results =
     for_loop (\<lambda>losses_sum session_result.
                 for_loop (add_loss session_result) losses_sum
                   [0 ..< length (TrainExecutable.losses self)])
       (map (\<lambda>_. 0) (TrainExecutable.losses self)) results"

definition collect_results ::
  "('g, 'c, 'op) TrainExecutable \<Rightarrow> session_result list \<Rightarrow> error + ('g, 'c, 'op) TrainExecutable"
where
  "collect_results self results =
     (case first_summaries self results of
        Inl e \<Rightarrow> Inl e
      | Inr (scalars, histograms, images) \<Rightarrow>
          (case sum_losses self results of
             Inl e \<Rightarrow> Inl e
           | Inr losses_sum \<Rightarrow>
               (case comprehension (\<lambda>s. truediv s (length results)) losses_sum of
                  Inl e \<Rightarrow> Inl e
                | Inr avg_losses \<Rightarrow>
                    Inr (self\<lparr>result :=
                           Some \<lparr>outputs = [], losses = avg_losses,
                                 scalar_summaries = scalars,
                                 histogram_summaries = histograms,
                                 image_summaries = images\<rparr>\<rparr>))))"


subsection \<open>Notions used to state the properties\<close>

text \<open>
  The running sum of one variable, as the loop body maintains it: the first contribution
  starts the sum, every later one is added to it.
\<close>

definition accum :: "'g::plus \<Rightarrow> 'g option \<Rightarrow> 'g option" where
  "accum c acc = (case acc of None \<Rightarrow> Some c | Some s \<Rightarrow> Some (s + c))"

text \<open>The loss sequence of a context result (empty when it has none).\<close>

definition losses_of :: "session_result \<Rightarrow> real list" where
  "losses_of r = (case r ''losses'' of Some (Floats ls) \<Rightarrow> ls | _ \<Rightarrow> [])"


section \<open>Properties of language\_utils.py\<close>

text \<open>
  The flag \<open>compound\<close> is only ever set while \<open>result\<close> is non-empty, and \<open>result\<close> never
  shrinks, so the unguarded \<open>result[-1]\<close> of the compounding branch cannot raise.
\<close>

lemma post_step_total:
  assumes "compound \<longrightarrow> res \<noteq> []"
  shows "\<exists>res' compound'. post_step u self (res, compound) word = Inr (res', compound')
           \<and> (compound' \<longrightarrow> res' \<noteq> [])"
  using assms by (auto simp: post_step_def set_last_def split: option.splits)

lemma post_loop_total:
  assumes "compound \<longrightarrow> res \<noteq> []"
  shows "\<exists>st'. post_loop u self (res, compound) sentence = Inr st'"
  using assms
proof (induction sentence arbitrary: res compound)
  case Nil
  then show ?case by simp
next
  case (Cons word sentence)
  from post_step_total [OF Cons.prems] obtain res' compound'
    where step: "post_step u self (res, compound) word = Inr (res', compound')"
      and inv: "compound' \<longrightarrow> res' \<noteq> []"
    by blast
  from Cons.IH [OF inv] show ?case by (simp add: step)
qed

lemma GermanPostprocessor_call_total:
  "\<exists>out. GermanPostprocessor_call u self sentence = Inr out"
proof -
  obtain st' where "post_loop u self ([], False) sentence = Inr st'"
    using post_loop_total [of False "[]" u self sentence] by auto
  then show ?thesis by (cases st') (simp add: GermanPostprocessor_call_def)
qed

text \<open>
  The first word of a non-empty output is \<open>str.capitalize\<close> of the first word the loop
  produced, and the other words are those of the loop.
\<close>

lemma GermanPostprocessor_call_first:
  assumes "GermanPostprocessor_call u self sentence = Inr (w # ws)"
  shows "\<exists>v compound. post_loop u self ([], False) sentence = Inr (v # ws, compound)
           \<and> w = str_capitalize u v"
proof -
  from assms obtain res compound
    where loop: "post_loop u self ([], False) sentence = Inr (res, compound)"
    by (auto simp: GermanPostprocessor_call_def split: sum.splits)
  with assms
  have out: "w # ws = (case res of [] \<Rightarrow> [] | v # vs \<Rightarrow> str_capitalize u v # vs)"
    by (simp add: GermanPostprocessor_call_def)
  then obtain v vs where res: "res = v # vs" by (cases res) auto
  with out have "w = str_capitalize u v" and "ws = vs" by simp_all
  with loop res show ?thesis by blast
qed

text \<open>With the three features disabled the loop copies the sentence.\<close>

lemma post_loop_features_off:
  assumes "\<not> compounding self" "\<not> contracting self" "\<not> pronouns self"
  shows "post_loop u self (res, compound) sentence = Inr (res @ sentence, compound)"
proof (induction sentence arbitrary: res)
  case Nil
  then show ?case by simp
next
  case (Cons word sentence)
  have "post_step u self (res, compound) word = Inr (res @ [word], compound)"
    using assms by (simp add: post_step_def)
  with Cons.IH [of "res @ [word]"] show ?case by simp
qed

lemma GermanPostprocessor_call_features_off:
  assumes "\<not> compounding self" "\<not> contracting self" "\<not> pronouns self"
  shows "GermanPostprocessor_call u self sentence =
           Inr (case sentence of [] \<Rightarrow> [] | w # ws \<Rightarrow> str_capitalize u w # ws)"
  by (simp add: GermanPostprocessor_call_def post_loop_features_off [OF assms])

lemma CONTRACT_simps:
  "CONTRACT w =
     (if w = ''der'' then Some [''zu'' \<mapsto> ''zur'']
      else if w = ''das'' then Some [''an'' \<mapsto> ''ans'', ''in'' \<mapsto> ''ins'']
      else if w = ''dem'' then
        Some [''an'' \<mapsto> ''am'', ''bei'' \<mapsto> ''beim'', ''in'' \<mapsto> ''im'', ''von'' \<mapsto> ''vom'',
              ''zu'' \<mapsto> ''zum'']
      else None)"
  by (simp add: CONTRACT_def CONTRACTIONS_def UNCONTRACTED_FORMS_def)

text \<open>
  Claim C9. For every string \<open>s\<close>, \<open>preprocess_char_based\<close> returns the list of the
  characters of \<open>s\<close> (as one-character strings), and \<open>postprocess_char_based\<close> applied
  to the list holding that character list, with any second argument, gives \<open>[[s]]\<close>.
\<close>

theorem char_based_roundtrip:
  "preprocess_char_based s = map (\<lambda>c. [c]) s
   \<and> postprocess_char_based [preprocess_char_based s] anything = [[s]]"
  by (simp add: preprocess_char_based_def postprocess_char_based_def)

text \<open>
  Claim C10. For every sentence and every setting of the three features the
  postprocessor returns, and when its output is not empty the first word of the output
  is \<open>str.capitalize\<close> (first character upper-cased, the others lower-cased) of the first
  word that the loop produced, the other words being those of the loop. With the three
  features disabled the loop copies the sentence, so the output is the sentence with its
  first word capitalized: the postprocessor is the identity on a sentence only if
  capitalizing leaves its first word unchanged.
\<close>

theorem GermanPostprocessor_first_word_capitalized:
  "(\<exists>out. GermanPostprocessor_call u self sentence = Inr out)
   \<and> (\<forall>w ws. GermanPostprocessor_call u self sentence = Inr (w # ws)
         \<longrightarrow> (\<exists>v compound. post_loop u self ([], False) sentence = Inr (v # ws, compound)
                            \<and> w = str_capitalize u v))
   \<and> (\<not> compounding self \<and> \<not> contracting self \<and> \<not> pronouns self
        \<longrightarrow> GermanPostprocessor_call u self sentence
              = Inr (case sentence of [] \<Rightarrow> [] | w # ws \<Rightarrow> str_capitalize u w # ws))"
proof (intro conjI allI impI)
  show "\<exists>out. GermanPostprocessor_call u self sentence = Inr out"
    by (rule GermanPostprocessor_call_total)
next
  fix w ws
  assume "GermanPostprocessor_call u self sentence = Inr (w # ws)"
  then show "\<exists>v compound. post_loop u self ([], False) sentence = Inr (v # ws, compound)
                \<and> w = str_capitalize u v"
    by (rule GermanPostprocessor_call_first)
next
  assume "\<not> compounding self \<and> \<not> contracting self \<and> \<not> pronouns self"
  then show "GermanPostprocessor_call u self sentence
               = Inr (case sentence of [] \<Rightarrow> [] | w # ws \<Rightarrow> str_capitalize u w # ws)"
    by (simp add: GermanPostprocessor_call_features_off)
qed

text \<open>
  The witness fixes the two methods at the words they are applied to, with the values
  Python gives there: \<^verbatim>\<open>'Hof'.lower()\<close> is \<open>hof\<close>, \<^verbatim>\<open>'zum'.capitalize()\<close> is \<open>Zum\<close> and
  \<^verbatim>\<open>'hallo'.capitalize()\<close> is \<open>Hallo\<close>.
\<close>

theorem GermanPostprocessor_first_word_capitalized_witness:
  "GermanPostprocessor_call
      \<lparr>str_lower = (\<lambda>w. if w = ''Hof'' then ''hof'' else w),
       str_capitalize = (\<lambda>w. if w = ''zum'' then ''Zum''
                              else if w = ''hallo'' then ''Hallo'' else w)\<rparr>
      \<lparr>compounding = True, contracting = True, pronouns = True\<rparr>
      [''zu'', ''dem'', ''bahn'', ''>><<'', ''Hof'', ''ein'', ''<<er'']
     = Inr [''Zum'', ''bahnhof'', ''einer'']
   \<and> post_loop
      \<lparr>str_lower = (\<lambda>w. if w = ''Hof'' then ''hof'' else w),
       str_capitalize = (\<lambda>w. if w = ''zum'' then ''Zum''
                              else if w = ''hallo'' then ''Hallo'' else w)\<rparr>
      \<lparr>compounding = True, contracting = True, pronouns = True\<rparr> ([], False)
      [''zu'', ''dem'', ''bahn'', ''>><<'', ''Hof'', ''ein'', ''<<er'']
     = Inr ([''zum'', ''bahnhof'', ''einer''], False)
   \<and> GermanPostprocessor_call
      \<lparr>str_lower = (\<lambda>w. if w = ''Hof'' then ''hof'' else w),
       str_capitalize = (\<lambda>w. if w = ''zum'' then ''Zum''
                              else if w = ''hallo'' then ''Hallo'' else w)\<rparr>
      \<lparr>compounding = False, contracting = False, pronouns = False\<rparr>
      [''hallo'', ''welt'']
     = Inr [''Hallo'', ''welt'']"
proof -
  let ?u = "\<lparr>str_lower = (\<lambda>w. if w = ''Hof'' then ''hof'' else w),
             str_capitalize = (\<lambda>w. if w = ''zum'' then ''Zum''
                                    else if w = ''hallo'' then ''Hallo'' else w)\<rparr>"
  let ?on = "\<lparr>compounding = True, contracting = True, pronouns = True\<rparr>"
  let ?off = "\<lparr>compounding = False, contracting = False, pronouns = False\<rparr>"
  let ?s = "[''zu'', ''dem'', ''bahn'', ''>><<'', ''Hof'', ''ein'', ''<<er'']"
  have loop: "post_loop ?u ?on ([], False) ?s = Inr ([''zum'', ''bahnhof'', ''einer''], False)"
    by (simp add: post_step_def set_last_def CONTRACT_simps)
  then have call: "GermanPostprocessor_call ?u ?on ?s = Inr [''Zum'', ''bahnhof'', ''einer'']"
    by (simp add: GermanPostprocessor_call_def)
  from GermanPostprocessor_first_word_capitalized [of ?u ?on ?s] call
  have "\<exists>v compound. post_loop ?u ?on ([], False) ?s = Inr (v # [''bahnhof'', ''einer''], compound)
          \<and> ''Zum'' = str_capitalize ?u v"
    by blast
  with loop have first: "''Zum'' = str_capitalize ?u ''zum''" by simp
  from GermanPostprocessor_first_word_capitalized [of ?u ?off "[''hallo'', ''welt'']"]
  have off: "GermanPostprocessor_call ?u ?off [''hallo'', ''welt''] = Inr [''Hallo'', ''welt'']"
    by simp
  from call loop off show ?thesis by blast
qed


section \<open>Properties of regularization, clipping and construction\<close>

text \<open>
  The pattern \<open>[Bb]ias\<close> finds a match exactly in the names that contain \<open>bias\<close> or
  \<open>Bias\<close>.
\<close>

lemma BIAS_REGEX_findall_iff:
  "(BIAS_REGEX_findall s \<noteq> []) =
     (\<exists>pre post. s = pre @ ''bias'' @ post \<or> s = pre @ ''Bias'' @ post)"
proof
  assume "BIAS_REGEX_findall s \<noteq> []"
  then show "\<exists>pre post. s = pre @ ''bias'' @ post \<or> s = pre @ ''Bias'' @ post"
  proof (induction s)
    case Nil
    then show ?case by simp
  next
    case (Cons c cs)
    show ?case
    proof (cases "(c = CHR ''B'' \<or> c = CHR ''b'') \<and> take 3 cs = ''ias''")
      case True
      then have "cs = ''ias'' @ drop 3 cs" by (metis append_take_drop_id)
      then have "c # cs = [] @ (c # ''ias'') @ drop 3 cs" by simp
      with True show ?thesis by blast
    next
      case False
      with Cons.prems have "BIAS_REGEX_findall cs \<noteq> []" by auto
      from Cons.IH [OF this] obtain pre post
        where "cs = pre @ ''bias'' @ post \<or> cs = pre @ ''Bias'' @ post" by blast
      then have "c # cs = (c # pre) @ ''bias'' @ post \<or> c # cs = (c # pre) @ ''Bias'' @ post"
        by auto
      then show ?thesis by blast
    qed
  qed
next
  assume "\<exists>pre post. s = pre @ ''bias'' @ post \<or> s = pre @ ''Bias'' @ post"
  then obtain pre post where s: "s = pre @ ''bias'' @ post \<or> s = pre @ ''Bias'' @ post"
    by blast
  then show "BIAS_REGEX_findall s \<noteq> []"
  proof (induction pre arbitrary: s)
    case Nil
    then show ?case by auto
  next
    case (Cons c pre)
    then obtain cs
      where cs: "s = c # cs" "cs = pre @ ''bias'' @ post \<or> cs = pre @ ''Bias'' @ post"
      by auto
    from Cons.IH [OF cs(2)] show ?case by (simp add: cs(1))
  qed
qed

lemma BIAS_REGEX_findall_examples:
  "BIAS_REGEX_findall ''encoder/bias:0'' = [''bias'']"
  "BIAS_REGEX_findall ''Bias_bias'' = [''Bias'', ''bias'']"
  "BIAS_REGEX_findall ''encoder/BIAS'' = []"
  "BIAS_REGEX_findall ''encoder/W'' = []"
  by simp_all

lemma scalar_val_add: "scalar_val (scalar_add a b) = scalar_val a + scalar_val b"
  by (cases a; cases b) simp_all

lemma scalar_val_py_sum: "scalar_val (py_sum xs) = sum_list (map scalar_val xs)"
proof -
  have "scalar_val (foldl scalar_add a xs) = scalar_val a + sum_list (map scalar_val xs)" for a
    by (induction xs arbitrary: a) (simp_all add: scalar_val_add)
  then show ?thesis by (simp add: py_sum_def)
qed

text \<open>
  What the code computes in general: \<open>l1_value\<close> is the sum, over the variables whose
  name matches the pattern, of the sum of the squares of their elements, and \<open>l2_value\<close>
  is the sum of the squares of these sums.
\<close>

lemma l1_value_val:
  "scalar_val (l1_value tv) =
     (\<Sum>v\<leftarrow>filter (\<lambda>v. BIAS_REGEX_findall (Variable.name v) \<noteq> []) tv.
        \<Sum>x\<leftarrow>elems v. x ^ 2)"
proof -
  have "\<bar>\<Sum>x\<leftarrow>xs. x ^ 2\<bar> = (\<Sum>x\<leftarrow>xs. x ^ 2)" for xs :: "real list"
    by (rule abs_of_nonneg) (auto intro!: sum_list_nonneg)
  then show ?thesis
    by (simp add: l1_value_def scalar_val_py_sum regularizable_def comp_def tf_reduce_sum_def
        tf_pow_def)
qed

lemma l2_value_val:
  "scalar_val (l2_value tv) =
     (\<Sum>v\<leftarrow>filter (\<lambda>v. BIAS_REGEX_findall (Variable.name v) \<noteq> []) tv.
        (\<Sum>x\<leftarrow>elems v. x ^ 2) ^ 2)"
  by (simp add: l2_value_def scalar_val_py_sum regularizable_def comp_def tf_reduce_sum_def
      tf_pow_def power2_eq_square)

text \<open>
  Claim C1. The claim says that the regularizable parameters are those whose name does
  not match the bias pattern. The code keeps the variables whose name does match: of a
  weight \<open>encoder/W\<close> with elements \<open>1, 2\<close> and a bias \<open>encoder/bias\<close> with element \<open>3\<close>,
  the only term of \<open>regularizable\<close> is the one of the bias, the sum of squares \<open>9\<close>.
\<close>

theorem regularizable_keeps_bias_only:
  "regularizable [\<lparr>Variable.name = ''encoder/W'', elems = [1, 2]\<rparr>,
                  \<lparr>Variable.name = ''encoder/bias'', elems = [3]\<rparr>]
     = [Tensor 9]"
  by (simp add: regularizable_def tf_reduce_sum_def tf_pow_def)

text \<open>
  Claim C2. The claim says that \<open>l1_value\<close> is the sum of the absolute values of the
  elements and \<open>l2_value\<close> the sum of their squares, so that a single regularizable scalar
  \<open>-3.0\<close> gives \<open>l1_value = 3.0\<close>. In the code the terms of \<open>regularizable\<close> are already
  sums of squares: for a single selected scalar \<open>-3.0\<close>, \<open>l1_value\<close> is \<open>9\<close> and \<open>l2_value\<close>
  is \<open>81\<close>; for a single scalar \<open>-3.0\<close> whose name does not match the pattern nothing is
  selected and \<open>l1_value\<close> is the number \<open>0\<close>.
\<close>

theorem l1_l2_value_at_minus_three:
  "l1_value [\<lparr>Variable.name = ''decoder/bias'', elems = [-3]\<rparr>] = Tensor 9
   \<and> l2_value [\<lparr>Variable.name = ''decoder/bias'', elems = [-3]\<rparr>] = Tensor 81
   \<and> l1_value [\<lparr>Variable.name = ''decoder/W'', elems = [-3]\<rparr>] = Num 0"
  by (simp add: l1_value_def l2_value_def py_sum_def regularizable_def tf_reduce_sum_def
      tf_pow_def)

text \<open>
  The clipping step leaves the gradients as they are only for \<open>None\<close>, and applies
  \<^verbatim>\<open>tf.clip_by_norm\<close> with the given bound to every gradient for a number.
\<close>

lemma clip_gradients_None: "clip_gradients cbn PyNone grads = grads"
  by (simp add: clip_gradients_def)

lemma clip_gradients_number:
  "clip_gradients cbn (PyFloat c) grads = map (\<lambda>(grad, var). (cbn grad (PyFloat c), var)) grads"
  by (simp add: clip_gradients_def)

text \<open>
  The update operation of a constructed trainer is built from the gradients that leave
  the clipping step, called with the \<open>clip_norm\<close> given to the constructor.
\<close>

lemma GenericTrainer_init_train_op:
  assumes "GenericTrainer_init env objectives l1_weight l2_weight clip_norm optimizer_arg
             = Inr (trainer, colls)"
  shows "GenericTrainer.train_op trainer =
           apply_gradients (GenericTrainer.optimizer trainer)
             (clip_gradients (clip_by_norm env) clip_norm
                (sum_gradients
                   (partial_gradients (GenericTrainer.optimizer trainer) objectives
                      [l1_cost l1_weight (trainable_variables env),
                       l2_cost l2_weight (trainable_variables env)])))"
  using assms by (auto simp: GenericTrainer_init_def Let_def split: sum.splits)

text \<open>
  Claim C3. The claim says that with \<open>clip_norm\<close> left at its default the aggregated
  gradients reach the optimizer unmodified. The default is \<open>False\<close>, which is not \<open>None\<close>:
  the clipping branch is taken and every gradient is replaced by the result of
  \<^verbatim>\<open>tf.clip_by_norm(grad, False)\<close>.
\<close>

theorem clip_gradients_default:
  "clip_gradients cbn default_clip_norm grads
     = map (\<lambda>(grad, var). (cbn grad (PyBool False), var)) grads"
  by (simp add: clip_gradients_def default_clip_norm_def)

text \<open>
  Claim C8. Construction with an empty list of objectives raises: the union of the
  encoders of no objective is \<^verbatim>\<open>set.union()\<close>, a \<open>TypeError\<close>, whatever the weights, the
  clipping bound and the optimizer are. No trainer is produced.
\<close>

theorem GenericTrainer_init_no_objectives:
  "GenericTrainer_init env [] l1_weight l2_weight clip_norm optimizer_arg = Inl TypeError"
  by (simp add: GenericTrainer_init_def Let_def)

lemma GenericTrainer_init_losses:
  assumes "GenericTrainer_init env objectives l1_weight l2_weight clip_norm optimizer_arg
             = Inr (trainer, colls)"
  shows "GenericTrainer.losses trainer =
           map loss objectives
           @ [l1_value (trainable_variables env), l2_value (trainable_variables env)]"
  using assms by (auto simp: GenericTrainer_init_def Let_def split: sum.splits)

section \<open>Properties of gradient aggregation\<close>

lemma fold_accum_Some: "fold accum cs (Some s) = Some (foldl (+) s cs)"
  by (induction cs arbitrary: s) (simp_all add: accum_def)

lemma total_fold: "total cs = fold accum cs None"
proof (cases cs)
  case Nil
  then show ?thesis by simp
next
  case (Cons c cs')
  then show ?thesis by (simp add: accum_def fold_accum_Some)
qed

lemma distinct_sum_entry:
  "distinct (map fst d) \<Longrightarrow> distinct (map fst (sum_entry d e))"
  by (auto simp: sum_entry_def distinct_update split: option.splits prod.splits)

lemma map_of_sum_entry:
  "map_of (sum_entry d (g, var)) v =
     (if var = v then (case g of None \<Rightarrow> map_of d v | Some t \<Rightarrow> accum t (map_of d v))
      else map_of d v)"
  by (auto simp: sum_entry_def accum_def update_conv' split: option.splits)

lemma distinct_foldl_sum_entry:
  "distinct (map fst d) \<Longrightarrow> distinct (map fst (foldl sum_entry d gl))"
  by (induction gl arbitrary: d) (simp_all add: distinct_sum_entry)

lemma distinct_foldl_foldl:
  "distinct (map fst d) \<Longrightarrow> distinct (map fst (foldl (foldl sum_entry) d gls))"
  by (induction gls arbitrary: d) (simp_all add: distinct_foldl_sum_entry)

lemma map_of_foldl_sum_entry:
  "map_of (foldl sum_entry d gl) v =
     fold accum (List.map_filter (\<lambda>(g, var). if var = v then g else None) gl) (map_of d v)"
proof (induction gl arbitrary: d)
  case Nil
  then show ?case by (simp add: List.map_filter_simps)
next
  case (Cons e gl)
  obtain g var where e: "e = (g, var)" by (cases e)
  show ?case
    by (cases g) (simp_all add: e Cons.IH map_of_sum_entry List.map_filter_simps)
qed

lemma map_filter_append:
  "List.map_filter f (xs @ ys) = List.map_filter f xs @ List.map_filter f ys"
  by (simp add: List.map_filter_def)

lemma map_of_foldl_foldl:
  "map_of (foldl (foldl sum_entry) d gls) v = fold accum (contributions v gls) (map_of d v)"
proof (induction gls arbitrary: d)
  case Nil
  then show ?case by (simp add: contributions_def List.map_filter_simps)
next
  case (Cons gl gls)
  show ?case
    using Cons.IH [of "foldl sum_entry d gl"]
    by (simp add: map_of_foldl_sum_entry contributions_def map_filter_append)
qed

lemma sum_gradients_entry:
  "((tensor, var) \<in> set (sum_gradients gls)) = (total (contributions var gls) = Some tensor)"
proof -
  let ?d = "foldl (foldl sum_entry) [] gls"
  have dist: "distinct (map fst ?d)" by (simp add: distinct_foldl_foldl)
  have "((tensor, var) \<in> set (sum_gradients gls)) = ((var, tensor) \<in> set ?d)"
    by (auto simp: sum_gradients_def)
  also have "\<dots> = (map_of ?d var = Some tensor)"
    using dist by simp
  also have "\<dots> = (total (contributions var gls) = Some tensor)"
    by (simp add: map_of_foldl_foldl total_fold)
  finally show ?thesis .
qed

lemma sum_gradients_distinct: "distinct (map snd (sum_gradients gls))"
proof -
  have "map snd (sum_gradients gls) = map fst (foldl (foldl sum_entry) [] gls)"
    by (simp add: sum_gradients_def case_prod_unfold comp_def)
  then show ?thesis by (simp add: distinct_foldl_foldl)
qed

text \<open>
  Where the addition of gradients is commutative and associative, the running sum does
  not depend on the order of the contributions.
\<close>

lemma accum_commute: "accum (x::'g::ab_semigroup_add) \<circ> accum y = accum y \<circ> accum x"
  by (auto simp: accum_def fun_eq_iff add.commute add.left_commute add.assoc
      split: option.splits)

lemma total_mset:
  fixes cs :: "'g::ab_semigroup_add list"
  assumes "mset cs = mset cs'"
  shows "total cs = total cs'"
proof -
  have "fold accum cs = fold accum cs'"
    using assms by (intro fold_multiset_equiv) (simp_all add: accum_commute)
  then show ?thesis by (simp add: total_fold)
qed

lemma mset_map_filter:
  "mset xs = mset ys \<Longrightarrow> mset (List.map_filter f xs) = mset (List.map_filter f ys)"
  by (metis List.map_filter_def mset_filter mset_map)

lemma mset_concat_cong:
  assumes eq: "mset xss = mset yss"
  shows "mset (concat xss) = mset (concat yss)"
proof -
  have "mset (concat xss) = sum_mset (image_mset mset (mset xss))"
    by (simp add: mset_concat flip: sum_mset_sum_list)
  also have "\<dots> = sum_mset (image_mset mset (mset yss))"
    by (simp add: eq)
  also have "\<dots> = mset (concat yss)"
    by (simp add: mset_concat flip: sum_mset_sum_list)
  finally show ?thesis .
qed

lemma contributions_mset:
  "mset gls = mset gls' \<Longrightarrow> mset (contributions v gls) = mset (contributions v gls')"
  unfolding contributions_def by (intro mset_map_filter mset_concat_cong)

text \<open>
  Claim C4. For every list of gradient lists, the result of \<open>_sum_gradients\<close> has at most
  one entry per variable, and \<open>(tensor, var)\<close> is an entry exactly when \<open>var\<close> received at
  least one non-null gradient and \<open>tensor\<close> is the sum of all its non-null contributions
  across the input lists. A variable whose contributions are all null has no entry.
\<close>

theorem sum_gradients_one_entry_per_parameter:
  "distinct (map snd (sum_gradients gradients_list))
   \<and> ((tensor, var) \<in> set (sum_gradients gradients_list))
       = (total (contributions var gradients_list) = Some tensor)
   \<and> (var \<in> snd ` set (sum_gradients gradients_list))
       = (contributions var gradients_list \<noteq> [])"
proof -
  have "(var \<in> snd ` set (sum_gradients gradients_list))
          = (\<exists>t. total (contributions var gradients_list) = Some t)"
    by (force simp: sum_gradients_entry [symmetric] image_iff)
  also have "\<dots> = (contributions var gradients_list \<noteq> [])"
    by (cases "contributions var gradients_list") simp_all
  finally show ?thesis
    by (simp add: sum_gradients_distinct sum_gradients_entry)
qed

text \<open>
  The three binary64 numbers \<open>0.1\<close>, \<open>0.2\<close> and \<open>0.3\<close>, added from left to right in
  this order and in the reverse order.
\<close>

lemma float64_add_examples:
  "Float64 7205759403792794 (-56) + Float64 7205759403792794 (-55)
     = Float64 5404319552844596 (-54)"
  "Float64 5404319552844596 (-54) + Float64 5404319552844595 (-54)
     = Float64 5404319552844596 (-53)"
  "Float64 5404319552844595 (-54) + Float64 7205759403792794 (-55)
     = Float64 4503599627370496 (-53)"
  "Float64 4503599627370496 (-53) + Float64 7205759403792794 (-56)
     = Float64 5404319552844595 (-53)"
  by (simp_all add: plus_float64_def round_float64_def Let_def bit_length.simps)

text \<open>
  Claim C5, as stated, fails for floating-point gradients, whose addition is not
  associative. Three gradient lists give the variable \<open>A\<close> the binary64 gradients
  \<open>0.1\<close>, \<open>0.2\<close> and \<open>0.3\<close>: in this order the aggregate is \<open>0.6000000000000001\<close>, and
  for the reversed list of lists it is \<open>0.6\<close>.
\<close>

theorem sum_gradients_order_counterexample:
  "mset [[(Some (Float64 5404319552844595 (-54)), ''A'')],
         [(Some (Float64 7205759403792794 (-55)), ''A'')],
         [(Some (Float64 7205759403792794 (-56)), ''A'')]]
     = mset [[(Some (Float64 7205759403792794 (-56)), ''A'')],
             [(Some (Float64 7205759403792794 (-55)), ''A'')],
             [(Some (Float64 5404319552844595 (-54)), ''A'')]]
   \<and> sum_gradients [[(Some (Float64 7205759403792794 (-56)), ''A'')],
                     [(Some (Float64 7205759403792794 (-55)), ''A'')],
                     [(Some (Float64 5404319552844595 (-54)), ''A'')]]
     = [(Float64 5404319552844596 (-53), ''A'')]
   \<and> sum_gradients [[(Some (Float64 5404319552844595 (-54)), ''A'')],
                     [(Some (Float64 7205759403792794 (-55)), ''A'')],
                     [(Some (Float64 7205759403792794 (-56)), ''A'')]]
     = [(Float64 5404319552844595 (-53), ''A'')]"
  by (simp add: sum_gradients_def sum_entry_def float64_add_examples add_mset_commute)

text \<open>
  Claim C5, amended. In exact arithmetic, that is whenever the addition of gradients is
  commutative and associative, aggregation does not depend on the order of the input
  gradient lists: aggregating a permutation of the input gives the same entries, that is
  the same sum for every variable. The order of the entries in the result may differ.
\<close>

theorem sum_gradients_order_independent:
  fixes gradients_list :: "('g::ab_semigroup_add, 'v) Gradients list"
  assumes "mset permuted = mset gradients_list"
  shows "set (sum_gradients permuted) = set (sum_gradients gradients_list)"
proof -
  have "total (contributions var permuted) = total (contributions var gradients_list)" for var
    by (rule total_mset) (rule contributions_mset [OF assms])
  then have "(e \<in> set (sum_gradients permuted)) = (e \<in> set (sum_gradients gradients_list))" for e
    by (cases e) (simp add: sum_gradients_entry)
  then show ?thesis by blast
qed

theorem sum_gradients_order_independent_witness:
  "mset [[(Some 7, ''A'')], [(None, ''A''), (Some (2::int), ''B'')],
         [(Some 5, ''A''), (Some 1, ''B'')]]
     = mset [[(None, ''A''), (Some 2, ''B'')], [(Some 5, ''A''), (Some 1, ''B'')],
             [(Some 7, ''A'')]]
   \<and> set (sum_gradients [[(Some 7, ''A'')], [(None, ''A''), (Some (2::int), ''B'')],
                          [(Some 5, ''A''), (Some 1, ''B'')]])
     = set (sum_gradients [[(None, ''A''), (Some 2, ''B'')], [(Some 5, ''A''), (Some 1, ''B'')],
                           [(Some 7, ''A'')]])
   \<and> sum_gradients [[(None, ''A''), (Some (2::int), ''B'')], [(Some 5, ''A''), (Some 1, ''B'')],
                     [(Some 7, ''A'')]]
     = [(3, ''B''), (12, ''A'')]"
proof -
  have perm:
    "mset [[(Some 7, ''A'')], [(None, ''A''), (Some (2::int), ''B'')],
           [(Some 5, ''A''), (Some 1, ''B'')]]
       = mset [[(None, ''A''), (Some 2, ''B'')], [(Some 5, ''A''), (Some 1, ''B'')],
               [(Some 7, ''A'')]]"
    by (simp add: add_mset_commute)
  have val:
    "sum_gradients [[(None, ''A''), (Some (2::int), ''B'')], [(Some 5, ''A''), (Some 1, ''B'')],
                    [(Some 7, ''A'')]]
       = [(3, ''B''), (12, ''A'')]"
    by (simp add: sum_gradients_def sum_entry_def)
  from sum_gradients_order_independent [OF perm] perm val show ?thesis by blast
qed

text \<open>The examples of the specification.\<close>

lemma sum_gradients_example_null:
  "sum_gradients [[(None, ''A''), (Some (g::int), ''B'')], [(Some h, ''A''), (None, ''B'')]]
     = [(g, ''B''), (h, ''A'')]"
  by (simp add: sum_gradients_def sum_entry_def)

lemma sum_gradients_example_sum:
  "sum_gradients [[(Some (1::int), ''A'')], [(Some 1, ''A'')]] = [(2, ''A'')]"
  by (simp add: sum_gradients_def sum_entry_def)

section \<open>Properties of collect\_results\<close>

lemma for_loop_append:
  "for_loop body acc (xs @ ys) =
     (case for_loop body acc xs of Inl e \<Rightarrow> Inl e | Inr acc' \<Rightarrow> for_loop body acc' ys)"
  by (induction xs arbitrary: acc) (simp_all split: sum.splits)

lemma add_loss_ok:
  assumes "r ''losses'' = Some (Floats ls)" "i < length ls" "i < length lsum"
  shows "add_loss r lsum i = Inr (lsum[i := lsum ! i + ls ! i])"
  using assms by (simp add: add_loss_def getitem_def)

lemma inner_loop_prefix:
  assumes r: "r ''losses'' = Some (Floats ls)" and len: "length ls = length lsum"
    and n: "n \<le> length lsum"
  shows "for_loop (add_loss r) lsum [0 ..< n] =
           Inr (map (\<lambda>i. if i < n then lsum ! i + ls ! i else lsum ! i) [0 ..< length lsum])"
  using n
proof (induction n)
  case 0
  then show ?case by (simp add: map_nth)
next
  case (Suc n)
  let ?mid = "map (\<lambda>i. if i < n then lsum ! i + ls ! i else lsum ! i) [0 ..< length lsum]"
  from Suc have prefix: "for_loop (add_loss r) lsum [0 ..< n] = Inr ?mid" by simp
  have step: "add_loss r ?mid n = Inr (?mid[n := ?mid ! n + ls ! n])"
    using Suc.prems len r by (intro add_loss_ok [of r ls n ?mid]) simp_all
  have "?mid[n := ?mid ! n + ls ! n] =
          map (\<lambda>i. if i < Suc n then lsum ! i + ls ! i else lsum ! i) [0 ..< length lsum]"
  proof (intro nth_equalityI)
    show "length (?mid[n := ?mid ! n + ls ! n]) =
            length (map (\<lambda>i. if i < Suc n then lsum ! i + ls ! i else lsum ! i)
                      [0 ..< length lsum])"
      by simp
  next
    fix i
    assume "i < length (?mid[n := ?mid ! n + ls ! n])"
    then have i: "i < length lsum" by simp
    show "?mid[n := ?mid ! n + ls ! n] ! i =
            map (\<lambda>i. if i < Suc n then lsum ! i + ls ! i else lsum ! i) [0 ..< length lsum] ! i"
    proof (cases "i = n")
      case True
      with i show ?thesis by simp
    next
      case False
      with i show ?thesis by (simp add: less_Suc_eq)
    qed
  qed
  with prefix step show ?case by (simp add: for_loop_append)
qed

lemma inner_loop:
  assumes r: "r ''losses'' = Some (Floats ls)" and len: "length ls = length lsum"
  shows "for_loop (add_loss r) lsum [0 ..< length lsum] = Inr (map2 (+) lsum ls)"
proof -
  have "map (\<lambda>i. if i < length lsum then lsum ! i + ls ! i else lsum ! i) [0 ..< length lsum]
          = map2 (+) lsum ls"
    using len by (intro nth_equalityI) simp_all
  with inner_loop_prefix [of r ls lsum "length lsum"] r len show ?thesis by simp
qed

lemma outer_loop:
  assumes wf: "\<forall>r \<in> set results. \<exists>ls. r ''losses'' = Some (Floats ls) \<and> length ls = L"
    and len: "length lsum = L"
  shows "for_loop (\<lambda>losses_sum session_result.
                     for_loop (add_loss session_result) losses_sum [0 ..< L]) lsum results
         = Inr (map (\<lambda>i. lsum ! i + (\<Sum>r\<leftarrow>results. losses_of r ! i)) [0 ..< L])"
  using wf len
proof (induction results arbitrary: lsum)
  case Nil
  then show ?case by (auto simp: map_nth)
next
  case (Cons r results)
  from Cons.prems obtain ls where r: "r ''losses'' = Some (Floats ls)" and ls: "length ls = L"
    by auto
  have inner: "for_loop (add_loss r) lsum [0 ..< L] = Inr (map2 (+) lsum ls)"
    using inner_loop [of r ls lsum] r ls Cons.prems(2) by simp
  have len': "length (map2 (+) lsum ls) = L"
    using ls Cons.prems(2) by simp
  have wf': "\<forall>r \<in> set results. \<exists>ls. r ''losses'' = Some (Floats ls) \<and> length ls = L"
    using Cons.prems(1) by simp
  have "map (\<lambda>i. map2 (+) lsum ls ! i + (\<Sum>r\<leftarrow>results. losses_of r ! i)) [0 ..< L]
          = map (\<lambda>i. lsum ! i + (\<Sum>r\<leftarrow>r # results. losses_of r ! i)) [0 ..< L]"
    using ls Cons.prems(2) r by (simp add: losses_of_def)
  with Cons.IH [OF wf' len'] inner show ?case by simp
qed

lemma comprehension_truediv:
  "n \<noteq> 0 \<Longrightarrow> comprehension (\<lambda>s. truediv s n) xs = Inr (map (\<lambda>s. s / real n) xs)"
  by (induction xs) (simp_all add: truediv_def)

lemma sum_losses_ok:
  assumes "\<forall>r \<in> set results.
             \<exists>ls. r ''losses'' = Some (Floats ls) \<and> length ls = length (TrainExecutable.losses self)"
  shows "sum_losses self results =
           Inr (map (\<lambda>i. \<Sum>r\<leftarrow>results. losses_of r ! i) [0 ..< length (TrainExecutable.losses self)])"
proof -
  let ?L = "length (TrainExecutable.losses self)"
  have "length (map (\<lambda>_. 0::real) (TrainExecutable.losses self)) = ?L" by simp
  from outer_loop [OF assms this] show ?thesis by (simp add: sum_losses_def)
qed

lemma first_summaries_off:
  "TrainExecutable.scalar_summaries self = None \<Longrightarrow> first_summaries self results = Inr (None, None, None)"
  by (simp add: first_summaries_def)

lemma first_summaries_on:
  assumes "TrainExecutable.scalar_summaries self \<noteq> None"
    and "{''scalar_summaries'', ''histogram_summaries'', ''image_summaries''} \<subseteq> dom r0"
  shows "first_summaries self (r0 # rs) =
           Inr (r0 ''scalar_summaries'', r0 ''histogram_summaries'', r0 ''image_summaries'')"
  using assms by (auto simp: first_summaries_def getitem_def)

lemma dom_fetches:
  "dom (fst (snd (next_to_execute self))) =
     (if TrainExecutable.scalar_summaries self \<noteq> None
      then {''train_op'', ''scalar_summaries'', ''histogram_summaries'', ''image_summaries'', ''losses''}
      else {''train_op'', ''losses''})"
  by (auto simp: next_to_execute_def Let_def)

lemma comprehension_truediv_zero:
  "comprehension (\<lambda>s. truediv s 0) xs = (if xs = [] then Inr [] else Inl ZeroDivisionError)"
  by (cases xs) (simp_all add: truediv_def)

lemma sum_losses_Nil: "sum_losses self [] = Inr (map (\<lambda>_. 0) (TrainExecutable.losses self))"
  by (simp add: sum_losses_def)

lemma collect_results_Nil:
  "collect_results self [] =
     (if TrainExecutable.scalar_summaries self \<noteq> None then Inl IndexError
      else if TrainExecutable.losses self \<noteq> [] then Inl ZeroDivisionError
      else Inr (self\<lparr>result :=
                  Some \<lparr>outputs = [], ExecutionResult.losses = [],
                        ExecutionResult.scalar_summaries = None,
                        ExecutionResult.histogram_summaries = None,
                        ExecutionResult.image_summaries = None\<rparr>\<rparr>))"
  by (simp add: collect_results_def first_summaries_def sum_losses_Nil comprehension_truediv_zero)


text \<open>
  Claim C6. An executable is obtained from a constructed trainer by \<open>get_executable\<close>,
  and its declared losses end with the two regularization values. For every such
  executable \<open>collect_results\<close> with an empty list of results raises: \<open>IndexError\<close>
  from \<open>results[0]\<close> when summaries were requested, \<open>ZeroDivisionError\<close> from the
  division by \<open>len(results)\<close> otherwise. No result is produced.
\<close>

theorem collect_results_empty:
  assumes "GenericTrainer_init env objectives l1_weight l2_weight clip_norm optimizer_arg
             = Inr (trainer, colls)"
  shows "collect_results (get_executable trainer train summaries) []
           = Inl (if summaries then IndexError else ZeroDivisionError)"
proof -
  from GenericTrainer_init_losses [OF assms]
  have declared: "GenericTrainer.losses trainer \<noteq> []"
    by simp
  show ?thesis
  proof (cases summaries)
    case True
    then show ?thesis by (simp add: collect_results_Nil get_executable_def)
  next
    case False
    with declared show ?thesis by (simp add: collect_results_Nil get_executable_def)
  qed
qed

text \<open>
  The witness: a graph with a weight and a bias, one objective whose loss is
  differentiated by the given optimizer, no regularization and no clipping.
\<close>

theorem collect_results_empty_witness:
  "(case GenericTrainer_init
           \<lparr>trainable_variables =
              [\<lparr>Variable.name = ''encoder/W'', elems = [1, 2]\<rparr>,
               \<lparr>Variable.name = ''encoder/bias'', elems = [3]\<rparr>],
            graph_collections = (\<lambda>_. []),
            AdamOptimizer = (\<lambda>_. \<lparr>compute_gradients = (\<lambda>_. []), apply_gradients = (\<lambda>_. ())\<rparr>),
            clip_by_norm = (\<lambda>g _. g), collect_encoders = (\<lambda>d. {d})\<rparr>
           [\<lparr>Objective.name = ''obj'', decoder = 0::nat, loss = Tensor 1, gradients = None\<rparr>]
           0 0 PyNone
           (Some \<lparr>compute_gradients =
                    (\<lambda>_. [(Some (1::int), \<lparr>Variable.name = ''encoder/W'', elems = [1, 2]\<rparr>),
                          (None, \<lparr>Variable.name = ''encoder/bias'', elems = [3]\<rparr>)]),
                  apply_gradients = (\<lambda>_. ())\<rparr>) of
      Inl e \<Rightarrow> False
    | Inr (trainer, colls) \<Rightarrow>
        collect_results (get_executable trainer True False) [] = Inl ZeroDivisionError
        \<and> collect_results (get_executable trainer True True) [] = Inl IndexError)"
proof -
  let ?init = "GenericTrainer_init
           \<lparr>trainable_variables =
              [\<lparr>Variable.name = ''encoder/W'', elems = [1, 2]\<rparr>,
               \<lparr>Variable.name = ''encoder/bias'', elems = [3]\<rparr>],
            graph_collections = (\<lambda>_. []),
            AdamOptimizer = (\<lambda>_. \<lparr>compute_gradients = (\<lambda>_. []), apply_gradients = (\<lambda>_. ())\<rparr>),
            clip_by_norm = (\<lambda>g _. g), collect_encoders = (\<lambda>d. {d})\<rparr>
           [\<lparr>Objective.name = ''obj'', decoder = 0::nat, loss = Tensor 1, gradients = None\<rparr>]
           0 0 PyNone
           (Some \<lparr>compute_gradients =
                    (\<lambda>_. [(Some (1::int), \<lparr>Variable.name = ''encoder/W'', elems = [1, 2]\<rparr>),
                          (None, \<lparr>Variable.name = ''encoder/bias'', elems = [3]\<rparr>)]),
                  apply_gradients = (\<lambda>_. ())\<rparr>)"
  obtain trainer colls where init: "?init = Inr (trainer, colls)"
    by (simp add: GenericTrainer_init_def Let_def)
  from collect_results_empty [OF init, of True False]
  have off: "collect_results (get_executable trainer True False) [] = Inl ZeroDivisionError"
    by simp
  from collect_results_empty [OF init, of True True]
  have on: "collect_results (get_executable trainer True True) [] = Inl IndexError"
    by simp
  from init off on show ?thesis by simp
qed


text \<open>
  Claim C7. For a non-empty list of context results that hold the keys of the fetch plan
  and whose loss sequences all have the length \<open>L\<close> of the declared losses,
  \<open>collect_results\<close> returns, and the losses of its result have length \<open>L\<close>, the loss at
  index \<open>i\<close> being the sum over the contexts of their loss at \<open>i\<close> divided by the number
  of contexts. The summaries of the result are those of the first context, or \<open>None\<close>
  when the executable has none. Losses \<open>[1.0, 3.0]\<close> and \<open>[2.0, 5.0]\<close> give
  \<open>[1.5, 4.0]\<close>.
\<close>

theorem collect_results_averages:
  assumes nonempty: "results \<noteq> []"
    and keys: "\<forall>r \<in> set results. dom (fst (snd (next_to_execute self))) \<subseteq> dom r"
    and wf: "\<forall>r \<in> set results.
               \<exists>ls. r ''losses'' = Some (Floats ls) \<and> length ls = length (TrainExecutable.losses self)"
  shows "collect_results self results =
           Inr (self\<lparr>result :=
                  Some \<lparr>outputs = [],
                        ExecutionResult.losses =
                          map (\<lambda>i. (\<Sum>r\<leftarrow>results. losses_of r ! i) / real (length results))
                            [0 ..< length (TrainExecutable.losses self)],
                        ExecutionResult.scalar_summaries =
                          (if TrainExecutable.scalar_summaries self = None then None
                           else hd results ''scalar_summaries''),
                        ExecutionResult.histogram_summaries =
                          (if TrainExecutable.scalar_summaries self = None then None
                           else hd results ''histogram_summaries''),
                        ExecutionResult.image_summaries =
                          (if TrainExecutable.scalar_summaries self = None then None
                           else hd results ''image_summaries'')\<rparr>\<rparr>)"
proof -
  from nonempty obtain r0 rs where results: "results = r0 # rs" by (cases results) auto
  have first: "first_summaries self results =
      Inr (if TrainExecutable.scalar_summaries self = None then None else r0 ''scalar_summaries'',
           if TrainExecutable.scalar_summaries self = None then None else r0 ''histogram_summaries'',
           if TrainExecutable.scalar_summaries self = None then None else r0 ''image_summaries'')"
  proof (cases "TrainExecutable.scalar_summaries self = None")
    case True
    then show ?thesis by (simp add: first_summaries_off)
  next
    case False
    with keys have "{''scalar_summaries'', ''histogram_summaries'', ''image_summaries''} \<subseteq> dom r0"
      by (simp add: results dom_fetches)
    from first_summaries_on [OF False this, of rs] False show ?thesis by (auto simp: results)
  qed
  have n: "length results \<noteq> 0" using nonempty by simp
  show ?thesis
    by (simp add: collect_results_def first sum_losses_ok [OF wf] comprehension_truediv [OF n]
        comp_def) (simp add: results)
qed

theorem collect_results_averages_witness:
  "[[''train_op'' \<mapsto> NoValue, ''scalar_summaries'' \<mapsto> Blob ''s'',
     ''histogram_summaries'' \<mapsto> Blob ''h'', ''image_summaries'' \<mapsto> Blob ''i'',
     ''losses'' \<mapsto> Floats [1, 3]],
    [''train_op'' \<mapsto> NoValue, ''scalar_summaries'' \<mapsto> Blob ''t'',
     ''histogram_summaries'' \<mapsto> Blob ''k'', ''image_summaries'' \<mapsto> Blob ''j'',
     ''losses'' \<mapsto> Floats [2, 5]]] \<noteq> []
   \<and> collect_results
        \<lparr>all_coders = {} :: nat set, train_op = (), losses = [Tensor 0, Tensor 0],
         scalar_summaries = Some ([] :: int summary list),
         histogram_summaries = Some [], image_summaries = Some [], result = None\<rparr>
        [[''train_op'' \<mapsto> NoValue, ''scalar_summaries'' \<mapsto> Blob ''s'',
          ''histogram_summaries'' \<mapsto> Blob ''h'', ''image_summaries'' \<mapsto> Blob ''i'',
          ''losses'' \<mapsto> Floats [1, 3]],
         [''train_op'' \<mapsto> NoValue, ''scalar_summaries'' \<mapsto> Blob ''t'',
          ''histogram_summaries'' \<mapsto> Blob ''k'', ''image_summaries'' \<mapsto> Blob ''j'',
          ''losses'' \<mapsto> Floats [2, 5]]]
     = Inr \<lparr>all_coders = {}, train_op = (), losses = [Tensor 0, Tensor 0],
            scalar_summaries = Some [], histogram_summaries = Some [],
            image_summaries = Some [],
            result = Some \<lparr>outputs = [], ExecutionResult.losses = [3 / 2, 4],
                           ExecutionResult.scalar_summaries = Some (Blob ''s''),
                           ExecutionResult.histogram_summaries = Some (Blob ''h''),
                           ExecutionResult.image_summaries = Some (Blob ''i'')\<rparr>\<rparr>"
proof -
  let ?self = "\<lparr>all_coders = {} :: nat set, train_op = (), losses = [Tensor 0, Tensor 0],
         scalar_summaries = Some ([] :: int summary list),
         histogram_summaries = Some [], image_summaries = Some [], result = None\<rparr>"
  let ?r1 = "[''train_op'' \<mapsto> NoValue, ''scalar_summaries'' \<mapsto> Blob ''s'',
     ''histogram_summaries'' \<mapsto> Blob ''h'', ''image_summaries'' \<mapsto> Blob ''i'',
     ''losses'' \<mapsto> Floats [1, 3]]"
  let ?r2 = "[''train_op'' \<mapsto> NoValue, ''scalar_summaries'' \<mapsto> Blob ''t'',
     ''histogram_summaries'' \<mapsto> Blob ''k'', ''image_summaries'' \<mapsto> Blob ''j'',
     ''losses'' \<mapsto> Floats [2, 5]]"
  have nonempty: "[?r1, ?r2] \<noteq> []" by simp
  have keys: "\<forall>r \<in> set [?r1, ?r2]. dom (fst (snd (next_to_execute ?self))) \<subseteq> dom r"
    by (simp add: next_to_execute_def)
  have wf: "\<forall>r \<in> set [?r1, ?r2].
              \<exists>ls. r ''losses'' = Some (Floats ls)
                   \<and> length ls = length (TrainExecutable.losses ?self)"
    by simp
  have "[0 ..< 2] = [0, Suc 0]" by (simp add: upt_rec)
  with collect_results_averages [OF nonempty keys wf] show ?thesis
    by (simp add: losses_of_def)
qed

end
